theory Spec2Isabelle
  imports Complex_Main
begin

section \<open>Values of the host language\<close>

text \<open>
  The SDK is TypeScript. Strings are modelled as \<open>string\<close> (a list of characters,
  one character per code unit, which is exact for ASCII text); the numbers that
  count things (HTTP status codes, \<open>maxRetries\<close>, the numbers of a JSON body) are
  \<open>int\<close>. The numbers that measure milliseconds and the backoff multiplier are
  IEEE doubles, and they are not given a representation here: their type is the
  parameter \<open>'n\<close>, and the operations that the code applies to them are the
  parameter \<open>arith\<close> below. A property that is absent or \<open>undefined\<close> is \<open>None\<close>.

  A parsed JSON value; an object is the list of its entries, each key once.
\<close>

datatype json =
    JNull
  | JBool bool
  | JNum int
  | JStr string
  | JArr "json list"
  | JObj "(string \<times> json) list"

text \<open>
  \<open>MsGineError\<close>: the message, the status code, and the optional code, details and
  request id, which hold whatever the error envelope of a response holds.
\<close>

record MsGineError =
  e_message :: string
  statusCode :: int
  code :: "json option"
  details :: "json option"
  requestId :: "json option"

text \<open>
  A value that a \<open>throw\<close> or a rejected promise carries. The code only ever asks
  three things of it: is it an \<open>Error\<close>, is it a \<open>MsGineError\<close>, and what are its
  \<open>name\<close> and \<open>message\<close>. \<open>ErrorObj name message\<close> is an \<open>Error\<close> of another class,
  \<open>NonError\<close> a value that is not an \<open>Error\<close> at all, \<open>UndefinedValue\<close> is
  \<open>undefined\<close>.
\<close>

datatype thrown =
    MsGineErr MsGineError
  | ErrorObj string string
  | NonError string
  | UndefinedValue

text \<open>\<open>instanceof Error\<close>: \<open>MsGineError extends Error\<close>, so both kinds of error object pass.\<close>

fun instanceof_Error :: "thrown \<Rightarrow> bool" where
  "instanceof_Error (MsGineErr _) = True"
| "instanceof_Error (ErrorObj _ _) = True"
| "instanceof_Error _ = False"

text \<open>The constructor of \<open>MsGineError\<close> sets \<open>this.name = 'MsGineError'\<close>.\<close>

fun error_name :: "thrown \<Rightarrow> string" where
  "error_name (MsGineErr _) = ''MsGineError''"
| "error_name (ErrorObj n _) = n"
| "error_name _ = []"

fun error_message :: "thrown \<Rightarrow> string" where
  "error_message (MsGineErr e) = e_message e"
| "error_message (ErrorObj _ m) = m"
| "error_message _ = []"

subsection \<open>Number and value rendering\<close>

definition digit_char :: "nat \<Rightarrow> char" where
  "digit_char n = ''0123456789ABCDEF'' ! n"

fun string_of_nat :: "nat \<Rightarrow> string" where
  "string_of_nat n = (if n < 10 then [digit_char n]
     else string_of_nat (n div 10) @ [digit_char (n mod 10)])"

definition string_of_int :: "int \<Rightarrow> string" where
  "string_of_int i = (if i < 0 then CHR ''-'' # string_of_nat (nat (- i)) else string_of_nat (nat i))"

fun join :: "string \<Rightarrow> string list \<Rightarrow> string" where
  "join sep [] = []"
| "join sep [x] = x"
| "join sep (x # y # ys) = x @ sep @ join sep (y # ys)"

text \<open>
  \<open>ToString\<close> on a parsed JSON value, which is what the \<open>Error\<close> constructor applies
  to its \<open>message\<close> argument: an array joins its elements with commas (a \<open>null\<close>
  element prints as nothing), a plain object prints as \<open>[object Object]\<close>.
\<close>

fun js_to_string :: "json \<Rightarrow> string" where
  "js_to_string JNull = ''null''"
| "js_to_string (JBool b) = (if b then ''true'' else ''false'')"
| "js_to_string (JNum n) = string_of_int n"
| "js_to_string (JStr s) = s"
| "js_to_string (JArr xs) =
     join '','' (map (\<lambda>x. if x = JNull then [] else js_to_string x) xs)"
| "js_to_string (JObj _) = ''[object Object]''"

text \<open>Truthiness of a value, as in \<open>options.body ? ... : undefined\<close>.\<close>

fun truthy :: "json \<Rightarrow> bool" where
  "truthy JNull = False"
| "truthy (JBool b) = b"
| "truthy (JNum n) = (n \<noteq> 0)"
| "truthy (JStr s) = (s \<noteq> [])"
| "truthy _ = True"

text \<open>
  Property access \<open>v.k\<close> on a parsed JSON value: \<open>Inl ()\<close> is the \<open>TypeError\<close> of
  reading a property of \<open>null\<close>; a missing property, and any of the property names
  the code reads on a primitive or an array, is \<open>undefined\<close> (\<open>None\<close>).
\<close>

fun get_prop :: "json \<Rightarrow> string \<Rightarrow> unit + json option" where
  "get_prop JNull k = Inl ()"
| "get_prop (JObj kvs) k = Inr (map_of kvs k)"
| "get_prop _ k = Inr None"

text \<open>Optional chaining \<open>v?.k\<close>, where \<open>v\<close> may be \<open>undefined\<close> or \<open>null\<close>.\<close>

fun opt_chain :: "json option \<Rightarrow> string \<Rightarrow> json option" where
  "opt_chain None k = None"
| "opt_chain (Some JNull) k = None"
| "opt_chain (Some (JObj kvs)) k = map_of kvs k"
| "opt_chain (Some _) k = None"

text \<open>\<open>s.includes(sub)\<close> on strings.\<close>

fun is_prefix :: "string \<Rightarrow> string \<Rightarrow> bool" where
  "is_prefix [] s = True"
| "is_prefix (a # as) [] = False"
| "is_prefix (a # as) (b # bs) = (a = b \<and> is_prefix as bs)"

fun str_includes :: "string \<Rightarrow> string \<Rightarrow> bool" where
  "str_includes [] sub = (sub = [])"
| "str_includes (c # cs) sub = (is_prefix sub (c # cs) \<or> str_includes cs sub)"

section \<open>Validator: \<open>SendSmsSchema\<close>\<close>

record SendSmsPayload =
  to :: string
  message :: string

text \<open>An issue of the schema library's error: the field path and the message.\<close>

record issue =
  i_path :: "string list"
  i_message :: string

text \<open>
  \<open>z.object({to: z.string().min(1, ...), message: z.string().min(1, ...).max(1600, ...)})\<close>
  with \<open>safeParse\<close>: the fields are checked in the order of the schema and every
  violated check adds one issue; \<open>Inr\<close> is the parsed data.
\<close>

definition to_issues :: "string \<Rightarrow> issue list" where
  "to_issues s =
     (if length s < 1 then [\<lparr>i_path = [''to''], i_message = ''Phone number is required''\<rparr>] else [])"

definition message_issues :: "string \<Rightarrow> issue list" where
  "message_issues s =
     (if length s < 1 then [\<lparr>i_path = [''message''], i_message = ''Message is required''\<rparr>] else [])
     @ (if length s > 1600 then [\<lparr>i_path = [''message''], i_message = ''Message too long''\<rparr>] else [])"

definition safeParse :: "SendSmsPayload \<Rightarrow> issue list + SendSmsPayload" where
  "safeParse p =
     (let issues = to_issues (to p) @ message_issues (message p)
      in if issues = [] then Inr \<lparr>to = to p, message = message p\<rparr> else Inl issues)"

section \<open>Configuration\<close>

text \<open>
  The arithmetic of the platform on the numbers \<open>'n\<close> of the delay computation:
  the number that an integer literal of the code denotes, the product \<open>a * b\<close>,
  \<open>Math.pow(a, k)\<close> for the attempt counter \<open>k\<close>, \<open>Math.min(a, b)\<close> and the
  comparison \<open>a > b\<close>. On doubles these round, overflow to \<open>Infinity\<close> and yield
  \<open>NaN\<close> as the platform defines them, and \<open>Math.pow\<close> is only specified up to
  the implementation's approximation; so the model computes with whatever
  operations it is given, and what is proved of it holds of the platform's own.
\<close>

record 'n arith =
  num_lit :: "int \<Rightarrow> 'n"
  num_times :: "'n \<Rightarrow> 'n \<Rightarrow> 'n"
  Math_pow :: "'n \<Rightarrow> nat \<Rightarrow> 'n"
  Math_min :: "'n \<Rightarrow> 'n \<Rightarrow> 'n"
  num_gt :: "'n \<Rightarrow> 'n \<Rightarrow> bool"

text \<open>
  The arithmetic of the integers, for evaluating examples. Doubles agree with it as
  long as every value involved is an integer of magnitude below \<open>2 ^ 53\<close>.
\<close>

definition integer_arith :: "int arith" where
  "integer_arith =
     \<lparr>num_lit = (\<lambda>i. i), num_times = (\<lambda>a b. a * b), Math_pow = (\<lambda>a k. a ^ k),
      Math_min = (\<lambda>a b. min a b), num_gt = (\<lambda>a b. a > b)\<rparr>"

text \<open>\<open>RetryConfig\<close>: every field is optional. \<open>Required<RetryConfig>\<close> has them all.\<close>

record 'n RetryConfig =
  r_maxRetries :: "int option"
  r_initialDelay :: "'n option"
  r_maxDelay :: "'n option"
  r_backoffMultiplier :: "'n option"
  r_retryableStatusCodes :: "int list option"

record 'n RequiredRetryConfig =
  maxRetries :: int
  initialDelay :: 'n
  maxDelay :: 'n
  backoffMultiplier :: 'n
  retryableStatusCodes :: "int list"

definition DEFAULT_RETRY_CONFIG :: "'n arith \<Rightarrow> 'n RequiredRetryConfig" where
  "DEFAULT_RETRY_CONFIG A =
     \<lparr>maxRetries = 3, initialDelay = num_lit A 1000, maxDelay = num_lit A 10000,
      backoffMultiplier = num_lit A 2,
      retryableStatusCodes = [408, 429, 500, 502, 503, 504]\<rparr>"

text \<open>
  \<open>{...DEFAULT_RETRY_CONFIG, ...config.retry}\<close>: a field that \<open>config.retry\<close> has
  replaces the default.
\<close>

definition or_default :: "'a option \<Rightarrow> 'a \<Rightarrow> 'a" where
  "or_default v d = (case v of None \<Rightarrow> d | Some x \<Rightarrow> x)"

definition spread_retry ::
  "'n RequiredRetryConfig \<Rightarrow> 'n RetryConfig option \<Rightarrow> 'n RequiredRetryConfig" where
  "spread_retry d r =
     (case r of
        None \<Rightarrow> d
      | Some ov \<Rightarrow>
          \<lparr>maxRetries = or_default (r_maxRetries ov) (maxRetries d),
           initialDelay = or_default (r_initialDelay ov) (initialDelay d),
           maxDelay = or_default (r_maxDelay ov) (maxDelay d),
           backoffMultiplier = or_default (r_backoffMultiplier ov) (backoffMultiplier d),
           retryableStatusCodes = or_default (r_retryableStatusCodes ov) (retryableStatusCodes d)\<rparr>)"

text \<open>
  \<open>MsGineClientConfig\<close>. Its \<open>fetch\<close> field, the HTTP executor, is not data of the
  model: it is the environment, and the functions below take its behaviour as an
  argument.
\<close>

record 'n MsGineClientConfig =
  cfg_apiToken :: string
  cfg_baseUrl :: "string option"
  cfg_timeout :: "'n option"
  cfg_retry :: "'n RetryConfig option"

record 'n FetchHttpClient =
  baseUrl :: string
  apiToken :: string
  timeout :: 'n
  retryConfig :: "'n RequiredRetryConfig"

text \<open>The constructor throws \<open>Error('API token is required')\<close> on an empty token.\<close>

definition new_FetchHttpClient ::
  "'n arith \<Rightarrow> 'n MsGineClientConfig \<Rightarrow> thrown + 'n FetchHttpClient" where
  "new_FetchHttpClient A config =
     (let this = \<lparr>baseUrl = or_default (cfg_baseUrl config) ''https://api.msgine.net/api/v1'',
                  apiToken = cfg_apiToken config,
                  timeout = or_default (cfg_timeout config) (num_lit A 30000),
                  retryConfig = spread_retry (DEFAULT_RETRY_CONFIG A) (cfg_retry config)\<rparr>
      in if apiToken this = [] then Inl (ErrorObj ''Error'' ''API token is required'')
         else Inr this)"

section \<open>The platform's \<open>URL\<close> class\<close>

text \<open>
  \<open>buildUrl\<close> calls \<open>new URL(path, base)\<close>, \<open>url.searchParams.append\<close> and
  \<open>url.toString()\<close> of the platform. They are modelled after the URL standard for
  plain \<open>http\<close> and \<open>https\<close> URLs: a scheme, \<open>://\<close>, a host, a path of unreserved
  characters and slashes without dot segments, taken verbatim (no case folding, no
  port, no query or fragment in the base). \<open>None\<close> stands for the constructor's
  \<open>TypeError\<close>, and also for every input outside this fragment.
\<close>

record URL =
  u_scheme :: string
  u_host :: string
  u_path :: string
  u_query :: "(string \<times> string) list"

definition is_alnum :: "char \<Rightarrow> bool" where
  "is_alnum c = (let n = (of_char c :: nat)
     in (48 \<le> n \<and> n \<le> 57) \<or> (65 \<le> n \<and> n \<le> 90) \<or> (97 \<le> n \<and> n \<le> 122))"

definition host_char :: "char \<Rightarrow> bool" where
  "host_char c = (is_alnum c \<or> c = CHR ''.'' \<or> c = CHR ''-'')"

definition path_char :: "char \<Rightarrow> bool" where
  "path_char c = (is_alnum c \<or> c \<in> set ''-._~/'')"

text \<open>The segments of a path: the pieces between slashes.\<close>

fun segments :: "string \<Rightarrow> string list" where
  "segments [] = [[]]"
| "segments (c # cs) =
     (if c = CHR ''/'' then [] # segments cs
      else (case segments cs of [] \<Rightarrow> [[c]] | s # ss \<Rightarrow> (c # s) # ss))"

definition plain_path :: "string \<Rightarrow> bool" where
  "plain_path p = (list_all path_char p \<and> ''.'' \<notin> set (segments p) \<and> ''..'' \<notin> set (segments p))"

definition parse_absolute :: "string \<Rightarrow> URL option" where
  "parse_absolute s =
     (let (scheme, rest) =
            (if is_prefix ''https://'' s then (''https'', drop 8 s)
             else if is_prefix ''http://'' s then (''http'', drop 7 s)
             else ([], []));
          host = takeWhile (\<lambda>c. c \<noteq> CHR ''/'') rest;
          p = dropWhile (\<lambda>c. c \<noteq> CHR ''/'') rest
      in if scheme = [] \<or> host = [] \<or> \<not> list_all host_char host \<or> \<not> plain_path p then None
         else Some \<lparr>u_scheme = scheme, u_host = host,
                    u_path = (if p = [] then ''/'' else p), u_query = []\<rparr>)"

text \<open>
  A base path without its last segment: \<open>/api/v1\<close> becomes \<open>/api/\<close>. A relative
  reference is resolved against this; a reference that starts with a slash replaces
  the whole path of the base.
\<close>

definition dirname :: "string \<Rightarrow> string" where
  "dirname p = rev (dropWhile (\<lambda>c. c \<noteq> CHR ''/'') (rev p))"

definition new_URL :: "string \<Rightarrow> string \<Rightarrow> URL option" where
  "new_URL input base =
     (case parse_absolute base of
        None \<Rightarrow> None
      | Some b \<Rightarrow>
          (case parse_absolute input of
             Some u \<Rightarrow> Some u
           | None \<Rightarrow>
               if input = [] then Some b
               else if is_prefix ''//'' input then parse_absolute (u_scheme b @ '':'' @ input)
               else if \<not> plain_path input then None
               else if is_prefix ''/'' input then Some (b\<lparr>u_path := input\<rparr>)
               else if plain_path (dirname (u_path b) @ input)
                    then Some (b\<lparr>u_path := dirname (u_path b) @ input\<rparr>)
               else None))"

text \<open>The \<open>application/x-www-form-urlencoded\<close> serialiser of \<open>searchParams\<close>.\<close>

definition form_encode_char :: "char \<Rightarrow> string" where
  "form_encode_char c =
     (if c = CHR '' '' then ''+''
      else if is_alnum c \<or> c \<in> set ''*-._'' then [c]
      else [CHR ''%'', digit_char ((of_char c :: nat) div 16), digit_char ((of_char c :: nat) mod 16)])"

definition form_encode :: "string \<Rightarrow> string" where
  "form_encode s = concat (map form_encode_char s)"

definition URL_toString :: "URL \<Rightarrow> string" where
  "URL_toString u =
     u_scheme u @ ''://'' @ u_host u @ u_path u
     @ (if u_query u = [] then []
        else ''?'' @ join ''&'' (map (\<lambda>(k, v). form_encode k @ ''='' @ form_encode v) (u_query u)))"

section \<open>Transport: \<open>FetchHttpClient\<close>\<close>

datatype HttpMethod = GET | POST | PUT | DELETE | PATCH

text \<open>A query parameter value is a string, a number or a boolean; \<open>String(value)\<close>.\<close>

datatype qvalue = QStr string | QNum int | QBool bool

fun String_of :: "qvalue \<Rightarrow> string" where
  "String_of (QStr s) = s"
| "String_of (QNum n) = string_of_int n"
| "String_of (QBool b) = (if b then ''true'' else ''false'')"

text \<open>
  \<open>RequestOptions\<close>. A record of the host language is the list of its entries in
  enumeration order, each key once.
\<close>

record RequestOptions =
  req_method :: HttpMethod
  path :: string
  body :: "json option"
  headers :: "(string \<times> string) list option"
  queryParams :: "(string \<times> qvalue) list option"

text \<open>\<open>buildUrl\<close>. \<open>Inl\<close> is the \<open>TypeError\<close> of \<open>new URL\<close>.\<close>

definition buildUrl ::
  "'n FetchHttpClient \<Rightarrow> string \<Rightarrow> (string \<times> qvalue) list option \<Rightarrow> thrown + string" where
  "buildUrl this p qps =
     (case new_URL p (baseUrl this) of
        None \<Rightarrow> Inl (ErrorObj ''TypeError'' ''Invalid URL'')
      | Some url \<Rightarrow>
          (let url' = (case qps of
                         None \<Rightarrow> url
                       | Some entries \<Rightarrow>
                           fold (\<lambda>(key, v) u. u\<lparr>u_query := u_query u @ [(key, String_of v)]\<rparr>)
                             entries url)
           in Inr (URL_toString url')))"

text \<open>
  Assigning a property of an object: an existing key keeps its place and takes the
  new value, a new key goes to the end. The spread \<open>{...a, ...b}\<close> assigns the entries
  of \<open>b\<close> one by one to a copy of \<open>a\<close>.
\<close>

fun obj_set :: "string \<Rightarrow> 'v \<Rightarrow> (string \<times> 'v) list \<Rightarrow> (string \<times> 'v) list" where
  "obj_set k v [] = [(k, v)]"
| "obj_set k v ((k', v') # kvs) = (if k = k' then (k, v) # kvs else (k', v') # obj_set k v kvs)"

definition obj_spread :: "(string \<times> 'v) list \<Rightarrow> (string \<times> 'v) list \<Rightarrow> (string \<times> 'v) list" where
  "obj_spread a b = fold (\<lambda>(k, v). obj_set k v) b a"

definition default_headers :: "'n FetchHttpClient \<Rightarrow> (string \<times> string) list" where
  "default_headers this =
     [(''Authorization'', apiToken this),
      (''Content-Type'', ''application/json''),
      (''User-Agent'', ''@msgine/sdk/1.0.0'')]"

definition buildHeaders ::
  "'n FetchHttpClient \<Rightarrow> (string \<times> string) list option \<Rightarrow> (string \<times> string) list" where
  "buildHeaders this customHeaders =
     obj_spread (default_headers this) (case customHeaders of None \<Rightarrow> [] | Some h \<Rightarrow> h)"

subsection \<open>The HTTP executor\<close>

text \<open>
  What \<open>handleResponse\<close> reads of a response: \<open>ok\<close>, \<open>status\<close>, \<open>statusText\<close>,
  \<open>headers.get('content-type')\<close> and the result of \<open>json()\<close>, which is the parsed
  body or a rejection.
\<close>

record Response =
  ok :: bool
  status :: int
  statusText :: string
  contentType :: "string option"
  json_body :: "thrown + json"

text \<open>
  The arguments of one call of the executor: the URL, and of the options the method,
  the headers and the body (the value that \<open>JSON.stringify\<close> serialises; \<open>None\<close>
  when the option is \<open>undefined\<close>). The abort signal is left out: a call that the
  timeout aborts is a call that rejects with an \<open>AbortError\<close>.
\<close>

record fetch_call =
  c_url :: string
  c_method :: HttpMethod
  c_headers :: "(string \<times> string) list"
  c_body :: "json option"

text \<open>
  One call of the executor settles: it resolves with a response (\<open>Inr\<close>) or rejects
  (\<open>Inl\<close>). What a request does to the outside world is the sequence of its executor
  calls and of its sleeps, in the order they happen.
\<close>

type_synonym fetch_result = "thrown + Response"

datatype 'n event = Fetch fetch_call | Sleep 'n

fun is_Fetch :: "'n event \<Rightarrow> bool" where
  "is_Fetch (Fetch _) = True"
| "is_Fetch (Sleep _) = False"

definition network_calls :: "'n event list \<Rightarrow> nat" where
  "network_calls tr = length (filter is_Fetch tr)"

fun sleeps :: "'n event list \<Rightarrow> 'n list" where
  "sleeps [] = []"
| "sleeps (Sleep d # tr) = d # sleeps tr"
| "sleeps (Fetch _ # tr) = sleeps tr"

subsection \<open>\<open>handleResponse\<close>\<close>

text \<open>
  The fields of the error envelope \<open>{error: {code, message, details}, meta: {requestId}}\<close>,
  read inside a \<open>try\<close>: when \<open>json()\<close> rejects, or the body is \<open>null\<close> (reading
  \<open>errorData.error\<close> then throws before anything is assigned), the defaults stay.
\<close>

definition read_envelope ::
  "string \<Rightarrow> thrown + json \<Rightarrow> string \<times> json option \<times> json option \<times> json option" where
  "read_envelope errorMessage parsed =
     (case parsed of
        Inl _ \<Rightarrow> (errorMessage, None, None, None)
      | Inr errorData \<Rightarrow>
          (case get_prop errorData ''error'' of
             Inl _ \<Rightarrow> (errorMessage, None, None, None)
           | Inr err \<Rightarrow>
               ((case opt_chain err ''message'' of
                   None \<Rightarrow> errorMessage
                 | Some JNull \<Rightarrow> errorMessage
                 | Some v \<Rightarrow> js_to_string v),
                opt_chain err ''code'',
                opt_chain err ''details'',
                (case get_prop errorData ''meta'' of
                   Inl _ \<Rightarrow> None
                 | Inr meta \<Rightarrow> opt_chain meta ''requestId''))))"

definition handleResponse :: "Response \<Rightarrow> thrown + json" where
  "handleResponse response =
     (let isJson = (case contentType response of
                      None \<Rightarrow> False
                    | Some ct \<Rightarrow> str_includes ct ''application/json'')
      in if ok response then
           (if isJson then json_body response
            else Inl (MsGineErr \<lparr>e_message = ''Unexpected response format'',
                                 statusCode = status response,
                                 code = Some (JStr ''INVALID_RESPONSE_FORMAT''),
                                 details = None, requestId = None\<rparr>))
         else
           (let errorMessage = ''HTTP '' @ string_of_int (status response) @ '': ''
                                 @ statusText response;
                (msg, errorCode, errorDetails, rid) =
                  (if isJson then read_envelope errorMessage (json_body response)
                   else (errorMessage, None, None, None))
            in Inl (MsGineErr \<lparr>e_message = msg, statusCode = status response,
                                 code = errorCode, details = errorDetails,
                                 requestId = rid\<rparr>)))"

subsection \<open>\<open>executeRequest\<close>\<close>

text \<open>
  The \<open>catch\<close> block of \<open>executeRequest\<close>. It receives whatever the \<open>try\<close> block
  threw: a rejection of the executor, and also what \<open>handleResponse\<close> threw, since
  \<open>return await this.handleResponse(response)\<close> stands inside the \<open>try\<close>.
\<close>

definition catch_executeRequest :: "thrown \<Rightarrow> thrown" where
  "catch_executeRequest error =
     (if instanceof_Error error \<and> error_name error = ''AbortError'' then
        MsGineErr \<lparr>e_message = ''Request timeout'', statusCode = 408,
                   code = Some (JStr ''REQUEST_TIMEOUT''), details = None, requestId = None\<rparr>
      else if instanceof_Error error then
        MsGineErr \<lparr>e_message = ''Network error: '' @ error_message error, statusCode = 0,
                   code = Some (JStr ''NETWORK_ERROR''), details = None, requestId = None\<rparr>
      else error)"

text \<open>
  \<open>executeRequest\<close>, given how the executor settles the call it is about to receive.
  \<open>buildUrl\<close> and \<open>buildHeaders\<close> run before the \<open>try\<close>: a \<open>TypeError\<close> of \<open>new URL\<close>
  leaves the function as it is, with no call made. \<open>fetch_args\<close> is the pair of
  arguments \<open>(url, {method, headers, body})\<close> that the executor receives.
\<close>

definition fetch_args :: "'n FetchHttpClient \<Rightarrow> RequestOptions \<Rightarrow> string \<Rightarrow> fetch_call" where
  "fetch_args this options url =
     \<lparr>c_url = url, c_method = req_method options,
      c_headers = buildHeaders this (headers options),
      c_body = (case body options of
                  None \<Rightarrow> None
                | Some b \<Rightarrow> if truthy b then Some b else None)\<rparr>"

definition executeRequest ::
  "'n FetchHttpClient \<Rightarrow> (fetch_call \<Rightarrow> fetch_result) \<Rightarrow> RequestOptions
     \<Rightarrow> (thrown + json) \<times> 'n event list" where
  "executeRequest this fetchImpl options =
     (case buildUrl this (path options) (queryParams options) of
        Inl e \<Rightarrow> (Inl e, [])
      | Inr url \<Rightarrow>
          (let call = fetch_args this options url
           in (case (case fetchImpl call of
                       Inl e \<Rightarrow> Inl e
                     | Inr response \<Rightarrow> handleResponse response) of
                 Inr data \<Rightarrow> (Inr data, [Fetch call])
               | Inl error \<Rightarrow> (Inl (catch_executeRequest error), [Fetch call]))))"

subsection \<open>\<open>request\<close>: the retry loop\<close>

text \<open>
  How \<open>request\<close> ends: it returns the data, it throws from inside the loop, or it
  reaches the \<open>throw lastError\<close> behind the loop (\<open>None\<close>: \<open>lastError\<close> is still
  \<open>undefined\<close>).
\<close>

datatype request_outcome =
    Returned json
  | ThrownInLoop thrown
  | ThrownAfterLoop "thrown option"

text \<open>
  \<open>Math.min(initialDelay * Math.pow(backoffMultiplier, attempt), maxDelay)\<close>, in the
  arithmetic of the platform.
\<close>

definition backoff_delay :: "'n arith \<Rightarrow> 'n RequiredRetryConfig \<Rightarrow> nat \<Rightarrow> 'n" where
  "backoff_delay A rc attempt =
     Math_min A (num_times A (initialDelay rc) (Math_pow A (backoffMultiplier rc) attempt))
       (maxDelay rc)"

text \<open>
  \<open>error instanceof MsGineError \<and> retryableStatusCodes.includes(error.statusCode)\<close>:
  the negation of the first \<open>if\<close> in the \<open>catch\<close> block of the loop.
\<close>

fun retryable :: "'n RequiredRetryConfig \<Rightarrow> thrown \<Rightarrow> bool" where
  "retryable rc (MsGineErr e) = (statusCode e \<in> set (retryableStatusCodes rc))"
| "retryable rc _ = False"

text \<open>
  The \<open>while\<close> loop, from the state \<open>(lastError, attempt)\<close>. \<open>fetchImpl k\<close> is how the
  executor settles the call that this request makes in its attempt \<open>k\<close>. Every await
  is sequential: the events of an attempt precede the sleep, and the sleep precedes
  the events of the next attempt.
\<close>

function request_loop ::
  "'n arith \<Rightarrow> 'n FetchHttpClient \<Rightarrow> (nat \<Rightarrow> fetch_call \<Rightarrow> fetch_result) \<Rightarrow> RequestOptions
     \<Rightarrow> thrown option \<Rightarrow> nat \<Rightarrow> request_outcome \<times> 'n event list" where
  "request_loop A this fetchImpl options lastError attempt =
     (if int attempt \<le> maxRetries (retryConfig this) then
        (let r = executeRequest this (fetchImpl attempt) options
         in (case fst r of
               Inr data \<Rightarrow> (Returned data, snd r)
             | Inl error \<Rightarrow>
                 if \<not> retryable (retryConfig this) error then (ThrownInLoop error, snd r)
                 else if int attempt \<ge> maxRetries (retryConfig this) then (ThrownInLoop error, snd r)
                 else
                   (let delay = backoff_delay A (retryConfig this) attempt;
                        rest = request_loop A this fetchImpl options (Some error) (attempt + 1)
                    in (fst rest, snd r @ [Sleep delay] @ snd rest))))
      else (ThrownAfterLoop lastError, []))"
  by pat_completeness auto
termination
  by (relation "measure (\<lambda>(A, this, fetchImpl, options, lastError, attempt).
        nat (maxRetries (retryConfig this) + 1 - int attempt))") auto

declare request_loop.simps [simp del]

definition request ::
  "'n arith \<Rightarrow> 'n FetchHttpClient \<Rightarrow> (nat \<Rightarrow> fetch_call \<Rightarrow> fetch_result) \<Rightarrow> RequestOptions
     \<Rightarrow> request_outcome \<times> 'n event list" where
  "request A this fetchImpl options = request_loop A this fetchImpl options None 0"

section \<open>Facade: \<open>MsGineClient\<close>\<close>

record MsGineValidationError =
  v_message :: string
  errors :: "issue list"

text \<open>What a promise of the facade rejects with.\<close>

datatype rejection = Validation MsGineValidationError | Transport thrown

record 'n MsGineClient =
  httpClient :: "'n FetchHttpClient"

definition new_MsGineClient ::
  "'n arith \<Rightarrow> 'n MsGineClientConfig \<Rightarrow> thrown + 'n MsGineClient" where
  "new_MsGineClient A config =
     (case new_FetchHttpClient A config of
        Inl e \<Rightarrow> Inl e
      | Inr h \<Rightarrow> Inr \<lparr>httpClient = h\<rparr>)"

definition payload_json :: "SendSmsPayload \<Rightarrow> json" where
  "payload_json p = JObj [(''to'', JStr (to p)), (''message'', JStr (message p))]"

text \<open>The promise that \<open>request\<close> returns, as \<open>sendSms\<close> hands it on.\<close>

fun settle_request :: "request_outcome \<Rightarrow> rejection + json" where
  "settle_request (Returned data) = Inr data"
| "settle_request (ThrownInLoop e) = Inl (Transport e)"
| "settle_request (ThrownAfterLoop None) = Inl (Transport UndefinedValue)"
| "settle_request (ThrownAfterLoop (Some e)) = Inl (Transport e)"

definition sendSms ::
  "'n arith \<Rightarrow> 'n MsGineClient \<Rightarrow> (nat \<Rightarrow> fetch_call \<Rightarrow> fetch_result) \<Rightarrow> SendSmsPayload
     \<Rightarrow> (rejection + json) \<times> 'n event list" where
  "sendSms A this fetchImpl payload =
     (case safeParse payload of
        Inl error \<Rightarrow>
          (Inl (Validation \<lparr>v_message = ''Invalid SMS payload'', errors = error\<rparr>), [])
      | Inr data \<Rightarrow>
          (let r = request A (httpClient this) fetchImpl
                     \<lparr>req_method = POST, path = ''/messages/sms'',
                      body = Some (payload_json data), headers = None, queryParams = None\<rparr>
           in (settle_request (fst r), snd r)))"

text \<open>
  \<open>Promise.all\<close>: all results in input order when every promise fulfils, else the
  reason of the promise that rejects first in time. \<open>settled\<close> lists the indices of
  the promises in the order they settle (a permutation of the indices; a rejected
  promise that it does not list counts as settling after the listed ones, in input
  order).
\<close>

fun fulfilled :: "('e + 'a) list \<Rightarrow> 'a list" where
  "fulfilled [] = []"
| "fulfilled (Inr x # rs) = x # fulfilled rs"
| "fulfilled (Inl e # rs) = fulfilled rs"

fun first_rejection :: "('e + 'a) list \<Rightarrow> 'e option" where
  "first_rejection [] = None"
| "first_rejection (Inl e # rs) = Some e"
| "first_rejection (Inr x # rs) = first_rejection rs"

definition Promise_all :: "nat list \<Rightarrow> ('e + 'a) list \<Rightarrow> 'e + 'a list" where
  "Promise_all settled rs =
     (case first_rejection (map (\<lambda>i. rs ! i) (filter (\<lambda>i. i < length rs) settled) @ rs) of
        Some e \<Rightarrow> Inl e
      | None \<Rightarrow> Inr (fulfilled rs))"

text \<open>
  \<open>sendSmsBatch\<close>. The sends of a batch run concurrently, each with its own attempt
  counter: \<open>fetchImpl i k\<close> is how the executor settles the call that the send of
  payload \<open>i\<close> makes in its attempt \<open>k\<close>, and the outside world sees one event
  sequence per payload. \<open>find\<close> returns the first failed validation.
\<close>

definition sendSmsBatch ::
  "'n arith \<Rightarrow> 'n MsGineClient \<Rightarrow> (nat \<Rightarrow> nat \<Rightarrow> fetch_call \<Rightarrow> fetch_result) \<Rightarrow> nat list
     \<Rightarrow> SendSmsPayload list \<Rightarrow> (rejection + json list) \<times> 'n event list list" where
  "sendSmsBatch A this fetchImpl settled payloads =
     (let validations = map safeParse payloads
      in (case first_rejection validations of
            Some error \<Rightarrow>
              (Inl (Validation \<lparr>v_message = ''Invalid SMS payload in batch'', errors = error\<rparr>), [])
          | None \<Rightarrow>
              (let sends = map (\<lambda>i. sendSms A this (fetchImpl i) (payloads ! i))
                             [0..<length payloads]
               in (Promise_all settled (map fst sends), map snd sends))))"

text \<open>The executor calls of a whole batch: those of all its sends.\<close>

definition batch_network_calls :: "'n event list list \<Rightarrow> nat" where
  "batch_network_calls trs = sum_list (map network_calls trs)"

section \<open>The inputs of the repository's tests\<close>

text \<open>
  A mocked executor answers the attempts of one request from a list; once the list
  is used up it returns \<open>undefined\<close>, and reading the headers of that throws a
  \<open>TypeError\<close> inside the \<open>try\<close> block, which is the rejection modelled here.
\<close>

definition mock_fetch :: "fetch_result list \<Rightarrow> nat \<Rightarrow> fetch_call \<Rightarrow> fetch_result" where
  "mock_fetch rs k call =
     (if k < length rs then rs ! k
      else Inl (ErrorObj ''TypeError'' ''Cannot read properties of undefined''))"

definition test_client :: "'n arith \<Rightarrow> 'n MsGineClient" where
  "test_client A =
     \<lparr>httpClient = \<lparr>baseUrl = ''https://api.msgine.net/api/v1'', apiToken = ''test-token-123'',
                     timeout = num_lit A 30000, retryConfig = DEFAULT_RETRY_CONFIG A\<rparr>\<rparr>"

definition retry_client :: "'n arith \<Rightarrow> 'n MsGineClient" where
  "retry_client A =
     \<lparr>httpClient = \<lparr>baseUrl = ''https://api.msgine.net/api/v1'', apiToken = ''test-token'',
                     timeout = num_lit A 30000,
                     retryConfig = (DEFAULT_RETRY_CONFIG A)
                       \<lparr>maxRetries := 2, initialDelay := num_lit A 10\<rparr>\<rparr>\<rparr>"

text \<open>A client with the default delays that retries six times.\<close>

definition patient_client :: "'n arith \<Rightarrow> 'n MsGineClient" where
  "patient_client A =
     \<lparr>httpClient = \<lparr>baseUrl = ''https://api.msgine.net/api/v1'', apiToken = ''test-token'',
                     timeout = num_lit A 30000,
                     retryConfig = (DEFAULT_RETRY_CONFIG A)\<lparr>maxRetries := 6\<rparr>\<rparr>\<rparr>"

definition hello :: SendSmsPayload where
  "hello = \<lparr>to = ''+256701521269'', message = ''Hello''\<rparr>"

definition error_response :: "int \<Rightarrow> string \<Rightarrow> string \<Rightarrow> string \<Rightarrow> Response" where
  "error_response st txt c msg =
     \<lparr>ok = False, status = st, statusText = txt, contentType = Some ''application/json'',
      json_body = Inr (JObj [(''error'', JObj [(''code'', JStr c), (''message'', JStr msg)])])\<rparr>"

definition response_503 :: Response where
  "response_503 =
     error_response 503 ''Service Unavailable'' ''SERVICE_UNAVAILABLE''
       ''Service temporarily unavailable''"

definition response_401 :: Response where
  "response_401 = error_response 401 ''Unauthorized'' ''UNAUTHORIZED'' ''Invalid API token''"

definition delivery :: "string \<Rightarrow> string \<Rightarrow> string \<Rightarrow> json" where
  "delivery i recipient content =
     JObj [(''id'', JStr i), (''sid'', JNull), (''channel'', JStr ''sms''),
           (''to'', JArr [JStr recipient]), (''from'', JStr ''MsGine''),
           (''content'', JStr content), (''status'', JStr ''pending''), (''cost'', JNum 30),
           (''currency'', JStr ''UGX''), (''createdAt'', JStr ''2024-01-01T00:00:00Z'')]"

definition ok_response :: "json \<Rightarrow> Response" where
  "ok_response data =
     \<lparr>ok = True, status = 200, statusText = ''OK'', contentType = Some ''application/json'',
      json_body = Inr data\<rparr>"

definition sms_options :: "SendSmsPayload \<Rightarrow> RequestOptions" where
  "sms_options p =
     \<lparr>req_method = POST, path = ''/messages/sms'', body = Some (payload_json p),
      headers = None, queryParams = None\<rparr>"

text \<open>An executor whose every call is aborted by the timeout.\<close>

definition abort_fetch :: "nat \<Rightarrow> fetch_call \<Rightarrow> fetch_result" where
  "abort_fetch k call = Inl (ErrorObj ''AbortError'' ''The operation was aborted'')"

text \<open>The batch test: two payloads, each answered by its own successful response.\<close>

definition batch_payloads :: "SendSmsPayload list" where
  "batch_payloads = [\<lparr>to = ''+256701521269'', message = ''Hello 1''\<rparr>,
                     \<lparr>to = ''+256701521270'', message = ''Hello 2''\<rparr>]"

definition batch_fetch :: "nat \<Rightarrow> nat \<Rightarrow> fetch_call \<Rightarrow> fetch_result" where
  "batch_fetch i =
     mock_fetch [Inr (ok_response (if i = 0 then delivery ''msg_1'' ''+256701521269'' ''Hello 1''
                                   else delivery ''msg_2'' ''+256701521270'' ''Hello 2''))]"

section \<open>Properties of the retry loop\<close>

lemma sleeps_append: "sleeps (a @ b) = sleeps a @ sleeps b"
  by (induction a rule: sleeps.induct) simp_all

lemma network_calls_append: "network_calls (a @ b) = network_calls a + network_calls b"
  by (simp add: network_calls_def)

lemma executeRequest_events:
  "snd (executeRequest c fi opts) = [] \<or> (\<exists>call. snd (executeRequest c fi opts) = [Fetch call])"
  by (simp add: executeRequest_def Let_def split: sum.splits)

lemma sleeps_executeRequest: "sleeps (snd (executeRequest c fi opts)) = []"
  using executeRequest_events [of c fi opts] by auto

lemma calls_executeRequest: "network_calls (snd (executeRequest c fi opts)) \<le> 1"
  using executeRequest_events [of c fi opts] by (auto simp: network_calls_def)

text \<open>One turn of the loop, case by case.\<close>

lemma request_loop_exit:
  "\<not> int a \<le> maxRetries (retryConfig c) \<Longrightarrow>
     request_loop A c f opts le a = (ThrownAfterLoop le, [])"
  by (subst request_loop.simps) simp

lemma request_loop_return:
  "int a \<le> maxRetries (retryConfig c) \<Longrightarrow> fst (executeRequest c (f a) opts) = Inr d \<Longrightarrow>
     request_loop A c f opts le a = (Returned d, snd (executeRequest c (f a) opts))"
  by (subst request_loop.simps) (simp add: Let_def)

lemma request_loop_throw:
  "int a \<le> maxRetries (retryConfig c) \<Longrightarrow> fst (executeRequest c (f a) opts) = Inl e \<Longrightarrow>
     \<not> retryable (retryConfig c) e \<or> maxRetries (retryConfig c) \<le> int a \<Longrightarrow>
     request_loop A c f opts le a = (ThrownInLoop e, snd (executeRequest c (f a) opts))"
  by (subst request_loop.simps) (auto simp add: Let_def)

lemma request_loop_retry:
  "fst (executeRequest c (f a) opts) = Inl e \<Longrightarrow> retryable (retryConfig c) e \<Longrightarrow>
     int a < maxRetries (retryConfig c) \<Longrightarrow>
     request_loop A c f opts le a =
       (fst (request_loop A c f opts (Some e) (Suc a)),
        snd (executeRequest c (f a) opts) @ Sleep (backoff_delay A (retryConfig c) a)
          # snd (request_loop A c f opts (Some e) (Suc a)))"
  by (subst request_loop.simps) (simp add: Let_def)

lemma sleeps_request_loop:
  "\<exists>n. sleeps (snd (request_loop A c f opts le a)) = map (backoff_delay A (retryConfig c)) [a ..< a + n]"
proof (induction A c f opts le a rule: request_loop.induct)
  case (1 A c f opts le a)
  let ?r = "executeRequest c (f a) opts"
  show ?case
  proof (cases "int a \<le> maxRetries (retryConfig c)")
    case False
    then have "sleeps (snd (request_loop A c f opts le a)) = map (backoff_delay A (retryConfig c)) [a ..< a + 0]"
      by (simp add: request_loop_exit)
    then show ?thesis by blast
  next
    case inloop: True
    show ?thesis
    proof (cases "fst ?r")
      case (Inr d)
      then have "sleeps (snd (request_loop A c f opts le a)) = map (backoff_delay A (retryConfig c)) [a ..< a + 0]"
        using inloop by (simp add: request_loop_return sleeps_executeRequest)
      then show ?thesis by blast
    next
      case (Inl e)
      show ?thesis
      proof (cases "retryable (retryConfig c) e \<and> int a < maxRetries (retryConfig c)")
        case False
        then have "sleeps (snd (request_loop A c f opts le a)) = map (backoff_delay A (retryConfig c)) [a ..< a + 0]"
          using inloop Inl by (simp add: request_loop_throw sleeps_executeRequest)
        then show ?thesis by blast
      next
        case True
        then have "\<exists>n. sleeps (snd (request_loop A c f opts (Some e) (a + 1))) =
            map (backoff_delay A (retryConfig c)) [a + 1 ..< a + 1 + n]"
          using "1.IH" [OF inloop refl Inl _ _ refl] by simp
        then obtain n where n: "sleeps (snd (request_loop A c f opts (Some e) (Suc a))) =
            map (backoff_delay A (retryConfig c)) [Suc a ..< Suc a + n]" by auto
        have upt: "[a ..< a + Suc n] = a # [Suc a ..< Suc a + n]"
          by (simp add: upt_conv_Cons del: upt_Suc)
        have "sleeps (snd (request_loop A c f opts le a)) = map (backoff_delay A (retryConfig c)) [a ..< a + Suc n]"
          unfolding upt using True Inl n by (simp add: request_loop_retry sleeps_append sleeps_executeRequest)
        then show ?thesis by blast
      qed
    qed
  qed
qed

lemma sleeps_request_loop_length:
  "sleeps (snd (request_loop A c f opts le a)) =
     map (backoff_delay A (retryConfig c)) [a ..< a + length (sleeps (snd (request_loop A c f opts le a)))]"
proof -
  obtain n where n: "sleeps (snd (request_loop A c f opts le a)) = map (backoff_delay A (retryConfig c)) [a ..< a + n]"
    using sleeps_request_loop by blast
  then have "length (sleeps (snd (request_loop A c f opts le a))) = n" by simp
  with n show ?thesis by simp
qed

lemma request_loop_bounds:
  "int a \<le> maxRetries (retryConfig c) \<Longrightarrow>
     (\<forall>le'. fst (request_loop A c f opts le a) \<noteq> ThrownAfterLoop le') \<and>
     int (network_calls (snd (request_loop A c f opts le a))) \<le> maxRetries (retryConfig c) + 1 - int a \<and>
     int (length (sleeps (snd (request_loop A c f opts le a)))) \<le> maxRetries (retryConfig c) - int a"
proof (induction A c f opts le a rule: request_loop.induct)
  case (1 A c f opts le a)
  let ?r = "executeRequest c (f a) opts"
  note inloop = "1.prems"
  note one = calls_executeRequest [of c "f a" opts]
  show ?case
  proof (cases "fst ?r")
    case (Inr d)
    then show ?thesis
      using inloop one by (simp add: request_loop_return sleeps_executeRequest)
  next
    case (Inl e)
    show ?thesis
    proof (cases "retryable (retryConfig c) e \<and> int a < maxRetries (retryConfig c)")
      case False
      then show ?thesis
        using inloop Inl one by (simp add: request_loop_throw sleeps_executeRequest)
    next
      case True
      then have IH: "(\<forall>le'. fst (request_loop A c f opts (Some e) (Suc a)) \<noteq> ThrownAfterLoop le') \<and>
         int (network_calls (snd (request_loop A c f opts (Some e) (Suc a)))) \<le> maxRetries (retryConfig c) + 1 - int (Suc a) \<and>
         int (length (sleeps (snd (request_loop A c f opts (Some e) (Suc a))))) \<le> maxRetries (retryConfig c) - int (Suc a)"
        using "1.IH" [OF inloop refl Inl _ _ refl] by simp
      have eq: "request_loop A c f opts le a =
       (fst (request_loop A c f opts (Some e) (Suc a)),
        snd ?r @ Sleep (backoff_delay A (retryConfig c) a)
          # snd (request_loop A c f opts (Some e) (Suc a)))"
        using True Inl by (simp add: request_loop_retry)
      show ?thesis
        unfolding eq using IH one
        by (simp add: network_calls_append sleeps_append sleeps_executeRequest) (simp add: network_calls_def)
    qed
  qed
qed

text \<open>
  The whole run of the loop from attempt \<open>a\<close>: the events of each attempt that is
  retried, each followed by its sleep, and then the events of the last attempt \<open>k\<close>.
\<close>

lemma request_loop_trace:
  assumes "int a \<le> maxRetries (retryConfig c)"
  shows "\<exists>k\<ge>a.
           snd (request_loop A c f opts le a) =
             concat (map (\<lambda>n. snd (executeRequest c (f n) opts)
                                  @ [Sleep (backoff_delay A (retryConfig c) n)]) [a..<k])
             @ snd (executeRequest c (f k) opts)
         \<and> fst (request_loop A c f opts le a) =
             (case fst (executeRequest c (f k) opts) of
                Inr d \<Rightarrow> Returned d | Inl e \<Rightarrow> ThrownInLoop e)
         \<and> (\<forall>n. a \<le> n \<and> n < k \<longrightarrow>
               (\<exists>e. fst (executeRequest c (f n) opts) = Inl e \<and> retryable (retryConfig c) e
                    \<and> int n < maxRetries (retryConfig c)))
         \<and> \<not> (\<exists>e. fst (executeRequest c (f k) opts) = Inl e \<and> retryable (retryConfig c) e
                    \<and> int k < maxRetries (retryConfig c))
         \<and> int k \<le> maxRetries (retryConfig c)"
  using assms
proof (induction A c f opts le a rule: request_loop.induct)
  case (1 A c f opts le a)
  let ?E = "\<lambda>n. executeRequest c (f n) opts"
  let ?ev = "\<lambda>n. snd (?E n) @ [Sleep (backoff_delay A (retryConfig c) n)]"
  let ?P = "\<lambda>a le k. snd (request_loop A c f opts le a) = concat (map ?ev [a..<k]) @ snd (?E k)
         \<and> fst (request_loop A c f opts le a) =
             (case fst (?E k) of Inr d \<Rightarrow> Returned d | Inl e \<Rightarrow> ThrownInLoop e)
         \<and> (\<forall>n. a \<le> n \<and> n < k \<longrightarrow>
               (\<exists>e. fst (?E n) = Inl e \<and> retryable (retryConfig c) e
                    \<and> int n < maxRetries (retryConfig c)))
         \<and> \<not> (\<exists>e. fst (?E k) = Inl e \<and> retryable (retryConfig c) e
                    \<and> int k < maxRetries (retryConfig c))
         \<and> int k \<le> maxRetries (retryConfig c)"
  note inloop = "1.prems"
  show ?case
  proof (cases "fst (?E a)")
    case (Inr d)
    then have "?P a le a" using inloop by (auto simp: request_loop_return)
    then show ?thesis by blast
  next
    case (Inl e)
    show ?thesis
    proof (cases "retryable (retryConfig c) e \<and> int a < maxRetries (retryConfig c)")
      case False
      then have "?P a le a" using inloop Inl by (auto simp: request_loop_throw)
      then show ?thesis by blast
    next
      case True
      then have next_in: "int (a + 1) \<le> maxRetries (retryConfig c)" by simp
      from "1.IH" [OF inloop refl Inl _ _ refl next_in] True
      obtain k where k: "a + 1 \<le> k" "?P (a + 1) (Some e) k" by auto
      have upt: "[a..<k] = a # [Suc a..<k]" using k(1) by (simp add: upt_conv_Cons)
      have eq: "request_loop A c f opts le a =
         (fst (request_loop A c f opts (Some e) (Suc a)),
          snd (?E a) @ Sleep (backoff_delay A (retryConfig c) a)
            # snd (request_loop A c f opts (Some e) (Suc a)))"
        using True Inl by (simp add: request_loop_retry)
      have "\<forall>n. a \<le> n \<and> n < k \<longrightarrow>
               (\<exists>e. fst (?E n) = Inl e \<and> retryable (retryConfig c) e
                    \<and> int n < maxRetries (retryConfig c))"
      proof (intro allI impI)
        fix n assume n: "a \<le> n \<and> n < k"
        show "\<exists>e. fst (?E n) = Inl e \<and> retryable (retryConfig c) e \<and> int n < maxRetries (retryConfig c)"
        proof (cases "n = a")
          case True
          then show ?thesis using Inl \<open>retryable (retryConfig c) e \<and> int a < maxRetries (retryConfig c)\<close> by blast
        next
          case False
          with n have "a + 1 \<le> n \<and> n < k" by simp
          with k(2) show ?thesis by blast
        qed
      qed
      with k(2) have "?P a le k" unfolding eq upt by simp
      moreover have "a \<le> k" using k(1) by simp
      ultimately show ?thesis by blast
    qed
  qed
qed

lemma sleeps_capped:
  assumes "\<forall>x y. \<not> num_gt A (Math_min A x y) y"
  shows "list_all (\<lambda>d. \<not> num_gt A d (maxDelay (retryConfig c)))
           (sleeps (snd (request_loop A c f opts le a)))"
proof -
  let ?s = "sleeps (snd (request_loop A c f opts le a))"
  have "?s = map (backoff_delay A (retryConfig c)) [a ..< a + length ?s]"
    by (rule sleeps_request_loop_length)
  moreover have "list_all (\<lambda>d. \<not> num_gt A d (maxDelay (retryConfig c)))
       (map (backoff_delay A (retryConfig c)) [a ..< a + length ?s])"
    using assms by (simp add: list_all_iff backoff_delay_def)
  ultimately show ?thesis by simp
qed

lemma after_loop_reached:
  "maxRetries (retryConfig c) < 0 \<Longrightarrow> request A c f opts = (ThrownAfterLoop None, [])"
  by (simp add: request_def request_loop_exit)

lemma executeRequest_call:
  "buildUrl c (path opts) (queryParams opts) = Inr url \<Longrightarrow>
     snd (executeRequest c fi opts) = [Fetch (fetch_args c opts url)]"
  by (simp add: executeRequest_def Let_def split: sum.splits)

section \<open>Evaluation on the tests' inputs\<close>

lemmas url_defs = buildUrl_def new_URL_def parse_absolute_def plain_path_def path_char_def
  host_char_def is_alnum_def URL_toString_def dirname_def

lemmas client_defs = test_client_def retry_client_def patient_client_def
  DEFAULT_RETRY_CONFIG_def integer_arith_def hello_def
  response_503_def response_401_def error_response_def ok_response_def mock_fetch_def

lemmas transport_defs = executeRequest_def fetch_args_def handleResponse_def read_envelope_def
  catch_executeRequest_def buildHeaders_def obj_spread_def default_headers_def

lemmas sms_defs = sendSms_def safeParse_def to_issues_def message_issues_def request_def
  sms_options_def payload_json_def

lemma sms_url:
  "buildUrl \<lparr>baseUrl = ''https://api.msgine.net/api/v1'', apiToken = tok, timeout = t,
             retryConfig = rc\<rparr> ''/messages/sms'' None
     = Inr ''https://api.msgine.net/messages/sms''"
  by (simp add: url_defs)

text \<open>
  A request whose every call times out is retried: error 408 is retryable. With
  \<open>maxRetries = 2\<close> and \<open>initialDelay = 10\<close> there are three calls, and the sleeps
  between them last 10 and 20 milliseconds.
\<close>

lemma timeouts_are_retried:
  "request integer_arith (httpClient (retry_client integer_arith)) abort_fetch (sms_options hello) =
     (ThrownInLoop (MsGineErr \<lparr>e_message = ''Request timeout'', statusCode = 408,
          code = Some (JStr ''REQUEST_TIMEOUT''), details = None, requestId = None\<rparr>),
      [Fetch (fetch_args (httpClient (retry_client integer_arith)) (sms_options hello)
                ''https://api.msgine.net/messages/sms''),
       Sleep 10,
       Fetch (fetch_args (httpClient (retry_client integer_arith)) (sms_options hello)
                ''https://api.msgine.net/messages/sms''),
       Sleep 20,
       Fetch (fetch_args (httpClient (retry_client integer_arith)) (sms_options hello)
                ''https://api.msgine.net/messages/sms'')])"
  by (simp add: request_def request_loop.simps abort_fetch_def backoff_delay_def
      client_defs transport_defs sms_url sms_options_def Let_def)

text \<open>
  With the default delays and six retries, the sleeps of such a request last 1000,
  2000, 4000, 8000, 10000 and 10000 milliseconds.
\<close>

lemma default_schedule_observed:
  "sleeps (snd (request integer_arith (httpClient (patient_client integer_arith)) abort_fetch
                  (sms_options hello)))
     = [1000, 2000, 4000, 8000, 10000, 10000]"
  by (simp add: request_def request_loop.simps abort_fetch_def backoff_delay_def
      client_defs transport_defs sms_url sms_options_def Let_def)

section \<open>HTTP error responses and the \<open>catch\<close> block\<close>

text \<open>
  \<open>handleResponse\<close> turns a response that is not \<open>ok\<close> into a \<open>MsGineError\<close> with the
  status of the response. The \<open>catch\<close> block of \<open>executeRequest\<close> then receives this
  error, finds it to be an \<open>Error\<close> that is not an \<open>AbortError\<close>, and replaces it by a
  network error of status 0.
\<close>

lemma handleResponse_error_status:
  "\<not> ok r \<Longrightarrow> \<exists>e. handleResponse r = Inl (MsGineErr e) \<and> statusCode e = status r"
  by (simp add: handleResponse_def Let_def split: prod.splits)

lemma executeRequest_rewraps:
  assumes "buildUrl c (path opts) (queryParams opts) = Inr url"
      and "fi (fetch_args c opts url) = Inr r"
      and "\<not> ok r"
  shows "\<exists>m. executeRequest c fi opts =
           (Inl (MsGineErr \<lparr>e_message = ''Network error: '' @ m, statusCode = 0,
                             code = Some (JStr ''NETWORK_ERROR''), details = None,
                             requestId = None\<rparr>),
            [Fetch (fetch_args c opts url)])"
proof -
  from handleResponse_error_status [OF assms(3)]
  obtain e where "handleResponse r = Inl (MsGineErr e)" by blast
  then show ?thesis
    using assms(1,2) by (simp add: executeRequest_def Let_def catch_executeRequest_def)
qed

lemma http_error_never_retried:
  assumes "buildUrl c (path opts) (queryParams opts) = Inr url"
      and "f 0 (fetch_args c opts url) = Inr r"
      and "\<not> ok r"
      and "0 \<notin> set (retryableStatusCodes (retryConfig c))"
      and "0 \<le> maxRetries (retryConfig c)"
  shows "\<exists>m. request A c f opts =
           (ThrownInLoop (MsGineErr \<lparr>e_message = ''Network error: '' @ m, statusCode = 0,
                                      code = Some (JStr ''NETWORK_ERROR''), details = None,
                                      requestId = None\<rparr>),
            [Fetch (fetch_args c opts url)])"
proof -
  from executeRequest_rewraps [where fi = "f 0", OF assms(1,2,3)]
  obtain m where ex: "executeRequest c (f 0) opts =
           (Inl (MsGineErr \<lparr>e_message = ''Network error: '' @ m, statusCode = 0,
                             code = Some (JStr ''NETWORK_ERROR''), details = None,
                             requestId = None\<rparr>),
            [Fetch (fetch_args c opts url)])" by blast
  let ?e = "MsGineErr \<lparr>e_message = ''Network error: '' @ m, statusCode = 0,
               code = Some (JStr ''NETWORK_ERROR''), details = None, requestId = None\<rparr>"
  have nr: "\<not> retryable (retryConfig c) ?e" using assms(4) by simp
  have "int 0 \<le> maxRetries (retryConfig c)" using assms(5) by simp
  from request_loop_throw [OF this, where A = A and f = f and opts = opts and e = ?e and le = None] ex nr
  have "request A c f opts = (ThrownInLoop ?e, [Fetch (fetch_args c opts url)])"
    by (simp add: request_def)
  then show ?thesis by blast
qed

section \<open>Validation and batches\<close>

lemma safeParse_fails_iff:
  "isl (safeParse p) \<longleftrightarrow> to p = [] \<or> message p = [] \<or> length (message p) > 1600"
  by (auto simp: safeParse_def to_issues_def message_issues_def Let_def)

lemma first_rejection_Some:
  "\<exists>x\<in>set xs. isl x \<Longrightarrow>
     \<exists>i e. i < length xs \<and> xs ! i = Inl e \<and> (\<forall>j<i. \<not> isl (xs ! j)) \<and> first_rejection xs = Some e"
proof (induction xs rule: first_rejection.induct)
  case 1
  then show ?case by simp
next
  case (2 e rs)
  have "0 < length (Inl e # rs) \<and> (Inl e # rs) ! 0 = Inl e \<and> (\<forall>j<0. \<not> isl ((Inl e # rs) ! j)) \<and>
        first_rejection (Inl e # rs) = Some e" by simp
  then show ?case by blast
next
  case (3 x rs)
  then have "\<exists>x\<in>set rs. isl x" by auto
  with 3 obtain i e where ie: "i < length rs" "rs ! i = Inl e" "\<forall>j<i. \<not> isl (rs ! j)"
      "first_rejection rs = Some e"
    by blast
  have "\<forall>j<Suc i. \<not> isl ((Inr x # rs) ! j)"
    using ie(3) by (auto simp: nth_Cons split: nat.splits)
  with ie have "Suc i < length (Inr x # rs) \<and> (Inr x # rs) ! Suc i = Inl e \<and>
      (\<forall>j<Suc i. \<not> isl ((Inr x # rs) ! j)) \<and> first_rejection (Inr x # rs) = Some e" by simp
  then show ?case by blast
qed

lemma first_rejection_None: "first_rejection xs = None \<longleftrightarrow> (\<forall>x\<in>set xs. \<not> isl x)"
  by (induction xs rule: first_rejection.induct) auto

lemma fulfilled_map_Inr: "fulfilled (map Inr xs) = xs"
  by (induction xs) auto

lemma Promise_all_fulfilled:
  fixes xs :: "'a list"
  shows "Promise_all settled (map Inr xs) = (Inr xs :: 'e + 'a list)"
proof -
  have "first_rejection (map (\<lambda>i. map Inr xs ! i) (filter (\<lambda>i. i < length (map Inr xs)) settled)
          @ map Inr xs) = (None :: 'e option)"
    unfolding first_rejection_None by auto
  then show ?thesis
    by (simp add: Promise_all_def fulfilled_map_Inr)
qed

lemma sendSmsBatch_all_fulfilled:
  assumes len: "length rs = length ps"
      and sent: "\<forall>i<length ps. fst (sendSms A c (f i) (ps ! i)) = Inr (rs ! i)"
  shows "fst (sendSmsBatch A c f settled ps) = Inr rs"
proof -
  have valid: "\<forall>x\<in>set (map safeParse ps). \<not> isl x"
  proof
    fix x assume "x \<in> set (map safeParse ps)"
    then obtain i where i: "i < length ps" "x = safeParse (ps ! i)"
      by (auto simp: in_set_conv_nth)
    show "\<not> isl x"
    proof
      assume "isl x"
      then obtain e where "safeParse (ps ! i) = Inl e" using i by (auto simp: isl_def)
      then have "isl (fst (sendSms A c (f i) (ps ! i)))" by (simp add: sendSms_def)
      with sent i show False by simp
    qed
  qed
  then have v: "first_rejection (map safeParse ps) = None"
    by (simp only: first_rejection_None)
  have sends: "map fst (map (\<lambda>i. sendSms A c (f i) (ps ! i)) [0..<length ps]) = map Inr rs"
    using len sent by (auto intro!: nth_equalityI)
  show ?thesis
    by (simp only: sendSmsBatch_def Let_def v option.case sends Promise_all_fulfilled fst_conv)
qed

section \<open>Headers\<close>



section \<open>The claims of the specification\<close>

subsection \<open>C1: the request URL\<close>

text \<open>
  Claim C1: the URL of a call is the configured \<open>baseUrl\<close>, then the request path,
  then the encoded query parameters; with the default \<open>baseUrl\<close> and the path
  \<open>/messages/sms\<close> the path of the URL is \<open>/api/v1/messages/sms\<close>.

  The code departs from it. \<open>buildUrl\<close> resolves the path against the base with
  \<open>new URL(path, baseUrl)\<close>, and a path that starts with a slash replaces the whole
  path of the base: the client built from the tests' configuration calls
  \<open>https://api.msgine.net/messages/sms\<close>, and with the base
  \<open>https://custom.api.com/v2\<close> of the test \<open>should use custom base URL\<close> the URL
  does not contain the base, which that test expects.
\<close>

theorem buildUrl_drops_base_path:
  "new_FetchHttpClient A \<lparr>cfg_apiToken = ''test-token-123'', cfg_baseUrl = None,
                         cfg_timeout = None, cfg_retry = None\<rparr> = Inr (httpClient (test_client A))
   \<and> buildUrl (httpClient (test_client A)) ''/messages/sms'' None
        = Inr ''https://api.msgine.net/messages/sms''
   \<and> buildUrl (httpClient (test_client A)) ''/messages/sms'' None
        \<noteq> Inr (baseUrl (httpClient (test_client A)) @ ''/messages/sms'')
   \<and> buildUrl ((httpClient (test_client A))\<lparr>baseUrl := ''https://custom.api.com/v2''\<rparr>)
          ''/messages/sms'' None
        = Inr ''https://custom.api.com/messages/sms''
   \<and> \<not> str_includes ''https://custom.api.com/messages/sms'' ''https://custom.api.com/v2''"
  by (simp add: new_FetchHttpClient_def or_default_def spread_retry_def test_client_def url_defs)

subsection \<open>C2: retry on 503\<close>

text \<open>
  Claim C2: with \<open>maxRetries \<ge> 2\<close> and 503 among the retryable status codes, the
  responses 503, 503, 200 make \<open>sendSms\<close> return the delivery result of the third
  response after exactly three calls, one after the other.

  The code departs from it. On the input of the test \<open>should retry on retryable
  errors\<close> the first 503 response becomes a \<open>MsGineError\<close> of status 503 in
  \<open>handleResponse\<close>, the \<open>catch\<close> block of \<open>executeRequest\<close> replaces it by a network
  error of status 0, which is not retryable, and \<open>sendSms\<close> fails after one call.
\<close>

theorem retry_on_503_not_performed:
  "sendSms A (retry_client A)
     (mock_fetch [Inr response_503, Inr response_503,
                  Inr (ok_response (delivery ''msg_123'' ''+256701521269'' ''Hello''))]) hello
     = (Inl (Transport (MsGineErr
               \<lparr>e_message = ''Network error: Service temporarily unavailable'', statusCode = 0,
                code = Some (JStr ''NETWORK_ERROR''), details = None, requestId = None\<rparr>)),
        [Fetch (fetch_args (httpClient (retry_client A)) (sms_options hello)
                  ''https://api.msgine.net/messages/sms'')])
   \<and> maxRetries (retryConfig (httpClient (retry_client A))) = 2
   \<and> 503 \<in> set (retryableStatusCodes (retryConfig (httpClient (retry_client A))))"
  by (simp add: sms_defs request_loop.simps [of _ _ _ _ _ 0] client_defs transport_defs sms_url
      Let_def)

subsection \<open>C3: the backoff delays\<close>

text \<open>
  Claim C3: the delay slept before the retry that follows attempt \<open>n\<close> (counted from
  0) is \<open>min (initialDelay * backoffMultiplier ^ n) maxDelay\<close>; so no delay exceeds
  \<open>maxDelay\<close>, and \<open>initialDelay = 1000\<close>, \<open>backoffMultiplier = 2\<close>,
  \<open>maxDelay = 10000\<close> give 1000, 2000, 4000, 8000, 10000, 10000.

  For every client that makes an attempt at all (\<open>maxRetries \<ge> 0\<close>), every executor
  and every request, what \<open>request\<close> does is: the events of attempt 0, a sleep, the
  events of attempt 1, a sleep, and so on up to the events of a last attempt \<open>k\<close>.
  The sleep between attempt \<open>n\<close> and attempt \<open>n + 1\<close> lasts
  \<open>Math.min(initialDelay * Math.pow(backoffMultiplier, n), maxDelay)\<close>, as the
  platform computes it. The attempts before \<open>k\<close> are those that failed with a
  retryable error while \<open>n < maxRetries\<close>, attempt \<open>k\<close> is not of this kind, and
  it decides the outcome. As \<open>Math.min(x, y)\<close> is never greater than \<open>y\<close>, no sleep
  is longer than \<open>maxDelay\<close>.
\<close>

theorem backoff_delay_schedule:
  assumes "0 \<le> maxRetries (retryConfig c)"
  shows "\<exists>k. snd (request A c f opts) =
             concat (map (\<lambda>n. snd (executeRequest c (f n) opts)
                          @ [Sleep (Math_min A
                                      (num_times A (initialDelay (retryConfig c))
                                                   (Math_pow A (backoffMultiplier (retryConfig c)) n))
                                      (maxDelay (retryConfig c)))])
                         [0..<k])
             @ snd (executeRequest c (f k) opts)
           \<and> (\<forall>n<k. \<exists>e. fst (executeRequest c (f n) opts) = Inl e
                         \<and> retryable (retryConfig c) e \<and> int n < maxRetries (retryConfig c))
           \<and> \<not> (\<exists>e. fst (executeRequest c (f k) opts) = Inl e
                     \<and> retryable (retryConfig c) e \<and> int k < maxRetries (retryConfig c))
           \<and> fst (request A c f opts) =
               (case fst (executeRequest c (f k) opts) of
                  Inr d \<Rightarrow> Returned d | Inl e \<Rightarrow> ThrownInLoop e)
           \<and> ((\<forall>x y. \<not> num_gt A (Math_min A x y) y) \<longrightarrow>
                list_all (\<lambda>d. \<not> num_gt A d (maxDelay (retryConfig c)))
                  (sleeps (snd (request A c f opts))))"
proof -
  from assms have "int 0 \<le> maxRetries (retryConfig c)" by simp
  from request_loop_trace [OF this, where A = A and f = f and opts = opts and le = None]
  obtain k where k:
      "snd (request A c f opts) =
         concat (map (\<lambda>n. snd (executeRequest c (f n) opts)
                              @ [Sleep (backoff_delay A (retryConfig c) n)]) [0..<k])
         @ snd (executeRequest c (f k) opts)"
      "fst (request A c f opts) =
         (case fst (executeRequest c (f k) opts) of
            Inr d \<Rightarrow> Returned d | Inl e \<Rightarrow> ThrownInLoop e)"
      "\<forall>n. 0 \<le> n \<and> n < k \<longrightarrow>
           (\<exists>e. fst (executeRequest c (f n) opts) = Inl e \<and> retryable (retryConfig c) e
                \<and> int n < maxRetries (retryConfig c))"
      "\<not> (\<exists>e. fst (executeRequest c (f k) opts) = Inl e \<and> retryable (retryConfig c) e
                \<and> int k < maxRetries (retryConfig c))"
    unfolding request_def by blast
  have cap: "(\<forall>x y. \<not> num_gt A (Math_min A x y) y) \<longrightarrow>
                list_all (\<lambda>d. \<not> num_gt A d (maxDelay (retryConfig c)))
                  (sleeps (snd (request A c f opts)))"
    unfolding request_def using sleeps_capped by blast
  from k(3) have r: "\<forall>n<k. \<exists>e. fst (executeRequest c (f n) opts) = Inl e
                         \<and> retryable (retryConfig c) e \<and> int n < maxRetries (retryConfig c)"
    by simp
  from k(1) have shape: "snd (request A c f opts) =
             concat (map (\<lambda>n. snd (executeRequest c (f n) opts)
                          @ [Sleep (Math_min A
                                      (num_times A (initialDelay (retryConfig c))
                                                   (Math_pow A (backoffMultiplier (retryConfig c)) n))
                                      (maxDelay (retryConfig c)))])
                         [0..<k])
             @ snd (executeRequest c (f k) opts)"
    by (simp add: backoff_delay_def)
  from shape r k(4) k(2) cap show ?thesis by blast
qed


text \<open>
  The run of the timeout test sleeps 10 and 20 milliseconds between its three calls,
  and the default delays give the schedule of the claim.
\<close>

theorem backoff_delay_schedule_witness:
  "0 \<le> maxRetries (retryConfig (httpClient (retry_client integer_arith)))
   \<and> (\<forall>x y. \<not> num_gt integer_arith (Math_min integer_arith x y) y)
   \<and> snd (request integer_arith (httpClient (retry_client integer_arith)) abort_fetch
             (sms_options hello))
       = [Fetch (fetch_args (httpClient (retry_client integer_arith)) (sms_options hello)
                   ''https://api.msgine.net/messages/sms''),
          Sleep 10,
          Fetch (fetch_args (httpClient (retry_client integer_arith)) (sms_options hello)
                   ''https://api.msgine.net/messages/sms''),
          Sleep 20,
          Fetch (fetch_args (httpClient (retry_client integer_arith)) (sms_options hello)
                   ''https://api.msgine.net/messages/sms'')]
   \<and> list_all (\<lambda>d. \<not> num_gt integer_arith d
                       (maxDelay (retryConfig (httpClient (retry_client integer_arith)))))
        (sleeps (snd (request integer_arith (httpClient (retry_client integer_arith)) abort_fetch
                        (sms_options hello))))
   \<and> sleeps (snd (request integer_arith (httpClient (patient_client integer_arith)) abort_fetch
                     (sms_options hello)))
       = [1000, 2000, 4000, 8000, 10000, 10000]"
proof -
  have h1: "0 \<le> maxRetries (retryConfig (httpClient (retry_client integer_arith)))"
    by (simp add: retry_client_def DEFAULT_RETRY_CONFIG_def)
  have h2: "\<forall>x y. \<not> num_gt integer_arith (Math_min integer_arith x y) y"
    by (simp add: integer_arith_def)
  from backoff_delay_schedule [OF h1, where A = integer_arith and f = abort_fetch
         and opts = "sms_options hello"] h2
  have cap: "list_all (\<lambda>d. \<not> num_gt integer_arith d
                       (maxDelay (retryConfig (httpClient (retry_client integer_arith)))))
        (sleeps (snd (request integer_arith (httpClient (retry_client integer_arith)) abort_fetch
                        (sms_options hello))))"
    by blast
  from h1 h2 cap show ?thesis
    by (simp only: timeouts_are_retried default_schedule_observed snd_conv simp_thms)
qed

subsection \<open>C4: an invalid payload is never sent\<close>

text \<open>
  Claim C4: for every payload whose recipient is empty, or whose message is empty or
  longer than 1600 characters, \<open>sendSms\<close> fails with a \<open>MsGineValidationError\<close> and
  the executor is never called.
\<close>

theorem sendSms_invalid_payload:
  assumes "to p = [] \<or> message p = [] \<or> length (message p) > 1600"
  shows "\<exists>issues. issues \<noteq> [] \<and> safeParse p = Inl issues \<and>
           sendSms A c f p
             = (Inl (Validation \<lparr>v_message = ''Invalid SMS payload'', errors = issues\<rparr>), []) \<and>
           network_calls (snd (sendSms A c f p)) = 0"
proof -
  from assms have "isl (safeParse p)" by (simp add: safeParse_fails_iff)
  then obtain issues where iss: "safeParse p = Inl issues" by (auto simp: isl_def)
  then have "issues \<noteq> []" by (auto simp: safeParse_def Let_def split: if_splits)
  moreover have "sendSms A c f p
      = (Inl (Validation \<lparr>v_message = ''Invalid SMS payload'', errors = issues\<rparr>), [])"
    using iss by (simp add: sendSms_def)
  ultimately show ?thesis using iss by (simp add: network_calls_def)
qed

theorem sendSms_invalid_payload_witness:
  "(to \<lparr>to = [], message = ''Hello''\<rparr> = [] \<or> message \<lparr>to = [], message = ''Hello''\<rparr> = []
      \<or> length (message \<lparr>to = [], message = ''Hello''\<rparr>) > 1600)
   \<and> (\<exists>issues. issues \<noteq> [] \<and> safeParse \<lparr>to = [], message = ''Hello''\<rparr> = Inl issues \<and>
           sendSms integer_arith (test_client integer_arith) (mock_fetch []) \<lparr>to = [], message = ''Hello''\<rparr>
             = (Inl (Validation \<lparr>v_message = ''Invalid SMS payload'', errors = issues\<rparr>), []) \<and>
           network_calls (snd (sendSms integer_arith (test_client integer_arith) (mock_fetch []) \<lparr>to = [], message = ''Hello''\<rparr>)) = 0)"
proof -
  have h: "to \<lparr>to = [], message = ''Hello''\<rparr> = [] \<or> message \<lparr>to = [], message = ''Hello''\<rparr> = []
      \<or> length (message \<lparr>to = [], message = ''Hello''\<rparr>) > 1600" by simp
  show ?thesis
    using h
      sendSms_invalid_payload [OF h, where A = integer_arith
        and c = "test_client integer_arith" and f = "mock_fetch []"]
    by blast
qed

subsection \<open>C5: a batch with an invalid payload is never sent\<close>

text \<open>
  Claim C5: for every sequence of payloads of which at least one fails validation,
  \<open>sendSmsBatch\<close> fails with the validation error of that payload and makes no
  network call for any item, wherever the invalid payload stands.

  The error is that of the first payload that fails validation.
\<close>

theorem sendSmsBatch_invalid_payload:
  assumes "\<exists>p\<in>set ps. isl (safeParse p)"
  shows "\<exists>i issues. i < length ps \<and> safeParse (ps ! i) = Inl issues \<and>
           (\<forall>j<i. \<not> isl (safeParse (ps ! j))) \<and>
           sendSmsBatch A c f settled ps =
             (Inl (Validation \<lparr>v_message = ''Invalid SMS payload in batch'', errors = issues\<rparr>), []) \<and>
           batch_network_calls (snd (sendSmsBatch A c f settled ps)) = 0"
proof -
  from assms have "\<exists>x\<in>set (map safeParse ps). isl x" by auto
  from first_rejection_Some [OF this]
  obtain i e where ie: "i < length ps" "map safeParse ps ! i = Inl e"
      "\<forall>j<i. \<not> isl (map safeParse ps ! j)" "first_rejection (map safeParse ps) = Some e"
    by auto
  have "sendSmsBatch A c f settled ps =
         (Inl (Validation \<lparr>v_message = ''Invalid SMS payload in batch'', errors = e\<rparr>), [])"
    using ie(4) by (simp add: sendSmsBatch_def Let_def)
  moreover have "safeParse (ps ! i) = Inl e" using ie(1,2) by simp
  moreover have "\<forall>j<i. \<not> isl (safeParse (ps ! j))" using ie(1,3) by simp
  ultimately show ?thesis using ie(1) by (auto simp: batch_network_calls_def)
qed

theorem sendSmsBatch_invalid_payload_witness:
  "(\<exists>p\<in>set [\<lparr>to = ''+256701521269'', message = ''Valid''\<rparr>, \<lparr>to = [], message = ''Invalid''\<rparr>].
      isl (safeParse p))
   \<and> sendSmsBatch integer_arith (test_client integer_arith) batch_fetch [0, 1]
        [\<lparr>to = ''+256701521269'', message = ''Valid''\<rparr>, \<lparr>to = [], message = ''Invalid''\<rparr>]
      = (Inl (Validation \<lparr>v_message = ''Invalid SMS payload in batch'',
             errors = [\<lparr>i_path = [''to''], i_message = ''Phone number is required''\<rparr>]\<rparr>), [])"
proof -
  let ?ps = "[\<lparr>to = ''+256701521269'', message = ''Valid''\<rparr>, \<lparr>to = [], message = ''Invalid''\<rparr>]"
  have h: "\<exists>p\<in>set ?ps. isl (safeParse p)"
    by (simp add: safeParse_def to_issues_def message_issues_def)
  from sendSmsBatch_invalid_payload [OF h, where A = integer_arith
         and c = "test_client integer_arith" and f = batch_fetch and settled = "[0, 1]"]
  obtain i issues where r: "i < length ?ps" "safeParse (?ps ! i) = Inl issues"
      "sendSmsBatch integer_arith (test_client integer_arith) batch_fetch [0, 1] ?ps =
         (Inl (Validation \<lparr>v_message = ''Invalid SMS payload in batch'', errors = issues\<rparr>), [])"
    by blast
  have "issues = [\<lparr>i_path = [''to''], i_message = ''Phone number is required''\<rparr>]"
    using r(1,2) by (auto simp: less_Suc_eq safeParse_def to_issues_def message_issues_def)
  with h r(3) show ?thesis by simp
qed

subsection \<open>C6: a status that is not retryable\<close>

text \<open>
  Claim C6: for a response whose status is not retryable, such as 401, the transport
  makes one call and at once propagates an error that carries this status, with the
  message, code, details and request id of the JSON error envelope.

  The code departs from it. On the input of the test \<open>should handle API errors\<close>,
  \<open>handleResponse\<close> builds the error of status 401 and code \<open>UNAUTHORIZED\<close>, and the
  \<open>catch\<close> block of \<open>executeRequest\<close> replaces it: what \<open>sendSms\<close> throws after its one
  call has status 0 and code \<open>NETWORK_ERROR\<close>.
\<close>

theorem api_error_status_replaced:
  "sendSms A (test_client A) (mock_fetch [Inr response_401]) hello
     = (Inl (Transport (MsGineErr
               \<lparr>e_message = ''Network error: Invalid API token'', statusCode = 0,
                code = Some (JStr ''NETWORK_ERROR''), details = None, requestId = None\<rparr>)),
        [Fetch (fetch_args (httpClient (test_client A)) (sms_options hello)
                  ''https://api.msgine.net/messages/sms'')])
   \<and> handleResponse response_401
     = Inl (MsGineErr \<lparr>e_message = ''Invalid API token'', statusCode = 401,
              code = Some (JStr ''UNAUTHORIZED''), details = None, requestId = None\<rparr>)
   \<and> 401 \<notin> set (retryableStatusCodes (retryConfig (httpClient (test_client A))))"
  by (simp add: sms_defs request_loop.simps [of _ _ _ _ _ 0] client_defs transport_defs sms_url
      Let_def)

subsection \<open>C7: a network failure\<close>

text \<open>
  Claim C7: under the default retry policy, when the executor throws an \<open>Error\<close> that
  is not an abort, the transport throws the \<open>MsGineError\<close> of status 0, code
  \<open>NETWORK_ERROR\<close> and message \<open>Network error: \<close> followed by the cause, after exactly
  one call: 0 is not a retryable status, so there is no retry.
\<close>

theorem network_error_not_retried:
  assumes "retryConfig c = DEFAULT_RETRY_CONFIG A"
      and "buildUrl c (path opts) (queryParams opts) = Inr url"
      and "f 0 (fetch_args c opts url) = Inl (ErrorObj name cause)"
      and "name \<noteq> ''AbortError''"
  shows "request A c f opts =
           (ThrownInLoop (MsGineErr \<lparr>e_message = ''Network error: '' @ cause, statusCode = 0,
                                      code = Some (JStr ''NETWORK_ERROR''), details = None,
                                      requestId = None\<rparr>),
            [Fetch (fetch_args c opts url)])
         \<and> network_calls (snd (request A c f opts)) = 1"
proof -
  let ?e = "MsGineErr \<lparr>e_message = ''Network error: '' @ cause, statusCode = 0,
                        code = Some (JStr ''NETWORK_ERROR''), details = None, requestId = None\<rparr>"
  have ex: "executeRequest c (f 0) opts = (Inl ?e, [Fetch (fetch_args c opts url)])"
    using assms(2,3,4) by (simp add: executeRequest_def Let_def catch_executeRequest_def)
  have nr: "\<not> retryable (retryConfig c) ?e"
    using assms(1) by (simp add: DEFAULT_RETRY_CONFIG_def)
  have "int 0 \<le> maxRetries (retryConfig c)"
    using assms(1) by (simp add: DEFAULT_RETRY_CONFIG_def)
  from request_loop_throw [OF this, where A = A and f = f and opts = opts and e = ?e and le = None] ex nr
  have "request A c f opts = (ThrownInLoop ?e, [Fetch (fetch_args c opts url)])"
    by (simp add: request_def)
  then show ?thesis by (simp add: network_calls_def)
qed

theorem network_error_not_retried_witness:
  "retryConfig (httpClient (test_client integer_arith)) = DEFAULT_RETRY_CONFIG integer_arith
   \<and> buildUrl (httpClient (test_client integer_arith)) (path (sms_options hello)) (queryParams (sms_options hello))
        = Inr ''https://api.msgine.net/messages/sms''
   \<and> mock_fetch [Inl (ErrorObj ''Error'' ''Network failure'')] 0
        (fetch_args (httpClient (test_client integer_arith)) (sms_options hello)
           ''https://api.msgine.net/messages/sms'')
        = Inl (ErrorObj ''Error'' ''Network failure'')
   \<and> ''Error'' \<noteq> ''AbortError''
   \<and> request integer_arith (httpClient (test_client integer_arith)) (mock_fetch [Inl (ErrorObj ''Error'' ''Network failure'')])
        (sms_options hello)
      = (ThrownInLoop (MsGineErr \<lparr>e_message = ''Network error: Network failure'', statusCode = 0,
                                   code = Some (JStr ''NETWORK_ERROR''), details = None,
                                   requestId = None\<rparr>),
         [Fetch (fetch_args (httpClient (test_client integer_arith)) (sms_options hello)
                   ''https://api.msgine.net/messages/sms'')])
   \<and> network_calls (snd (request integer_arith (httpClient (test_client integer_arith))
         (mock_fetch [Inl (ErrorObj ''Error'' ''Network failure'')]) (sms_options hello))) = 1"
proof -
  have h1: "retryConfig (httpClient (test_client integer_arith)) = DEFAULT_RETRY_CONFIG integer_arith"
    by (simp add: test_client_def)
  have h2: "buildUrl (httpClient (test_client integer_arith)) (path (sms_options hello))
              (queryParams (sms_options hello)) = Inr ''https://api.msgine.net/messages/sms''"
    by (simp add: test_client_def sms_options_def sms_url)
  have h3: "mock_fetch [Inl (ErrorObj ''Error'' ''Network failure'')] 0
              (fetch_args (httpClient (test_client integer_arith)) (sms_options hello)
                 ''https://api.msgine.net/messages/sms'')
            = Inl (ErrorObj ''Error'' ''Network failure'')"
    by (simp add: mock_fetch_def)
  have h4: "''Error'' \<noteq> ''AbortError''" by simp
  show ?thesis
    using h1 h2 h3 h4
      network_error_not_retried [where A = integer_arith
        and c = "httpClient (test_client integer_arith)" and opts = "sms_options hello"
        and f = "mock_fetch [Inl (ErrorObj ''Error'' ''Network failure'')]", OF h1 h2 h3 h4]
    by (simp add: network_calls_def)
qed

subsection \<open>C8: the headers of a call\<close>



subsection \<open>C9: the results of a batch keep the order of the payloads\<close>

text \<open>
  Claim C9: when every send of a batch succeeds, \<open>sendSmsBatch\<close> returns a sequence
  as long as the input whose \<open>i\<close>-th element is the delivery result of sending the
  \<open>i\<close>-th payload.
\<close>

theorem sendSmsBatch_preserves_order:
  assumes "\<forall>i<length ps. \<exists>r. fst (sendSms A c (f i) (ps ! i)) = Inr r"
  shows "\<exists>rs. fst (sendSmsBatch A c f settled ps) = Inr rs \<and> length rs = length ps \<and>
           (\<forall>i<length ps. fst (sendSms A c (f i) (ps ! i)) = Inr (rs ! i))"
proof -
  define rs where "rs = map (\<lambda>i. projr (fst (sendSms A c (f i) (ps ! i)))) [0..<length ps]"
  have len: "length rs = length ps" by (simp add: rs_def)
  have sent: "\<forall>i<length ps. fst (sendSms A c (f i) (ps ! i)) = Inr (rs ! i)"
  proof (intro allI impI)
    fix i assume i: "i < length ps"
    with assms obtain r where "fst (sendSms A c (f i) (ps ! i)) = Inr r" by blast
    then show "fst (sendSms A c (f i) (ps ! i)) = Inr (rs ! i)" using i by (simp add: rs_def)
  qed
  from sendSmsBatch_all_fulfilled [OF len sent]
  have "fst (sendSmsBatch A c f settled ps) = Inr rs" .
  with len sent show ?thesis by blast
qed

theorem sendSmsBatch_preserves_order_witness:
  "(\<exists>r. fst (sendSms integer_arith (test_client integer_arith) (batch_fetch 0) (batch_payloads ! 0)) = Inr r)
   \<and> (\<exists>r. fst (sendSms integer_arith (test_client integer_arith) (batch_fetch 1) (batch_payloads ! 1)) = Inr r)
   \<and> length batch_payloads = 2
   \<and> fst (sendSmsBatch integer_arith (test_client integer_arith) batch_fetch [1, 0] batch_payloads)
       = Inr [delivery ''msg_1'' ''+256701521269'' ''Hello 1'',
              delivery ''msg_2'' ''+256701521270'' ''Hello 2'']"
proof -
  let ?d1 = "delivery ''msg_1'' ''+256701521269'' ''Hello 1''"
  let ?d2 = "delivery ''msg_2'' ''+256701521270'' ''Hello 2''"
  have l: "length batch_payloads = 2" by (simp add: batch_payloads_def)
  have s0: "fst (sendSms integer_arith (test_client integer_arith) (batch_fetch 0) (batch_payloads ! 0)) = Inr ?d1"
    by (simp add: sms_defs request_loop.simps [of _ _ _ _ _ 0] batch_fetch_def batch_payloads_def
        client_defs transport_defs sms_url Let_def)
  have s1: "fst (sendSms integer_arith (test_client integer_arith) (batch_fetch 1) (batch_payloads ! 1)) = Inr ?d2"
    by (simp add: sms_defs request_loop.simps [of _ _ _ _ _ 0] batch_fetch_def batch_payloads_def
        client_defs transport_defs sms_url Let_def)
  have h: "\<forall>i<length batch_payloads.
             \<exists>r. fst (sendSms integer_arith (test_client integer_arith) (batch_fetch i) (batch_payloads ! i)) = Inr r"
  proof (intro allI impI)
    fix i assume "i < length batch_payloads"
    then have "i = 0 \<or> i = 1" using l by auto
    then show "\<exists>r. fst (sendSms integer_arith (test_client integer_arith) (batch_fetch i) (batch_payloads ! i)) = Inr r"
      using s0 s1 by auto
  qed
  from sendSmsBatch_preserves_order [OF h, where settled = "[1, 0]"]
  obtain rs where rs: "fst (sendSmsBatch integer_arith (test_client integer_arith) batch_fetch [1, 0] batch_payloads) = Inr rs"
      "length rs = length batch_payloads"
      "\<forall>i<length batch_payloads.
         fst (sendSms integer_arith (test_client integer_arith) (batch_fetch i) (batch_payloads ! i)) = Inr (rs ! i)"
    by blast
  from rs(3) l s0 s1 have "rs ! 0 = ?d1" "rs ! 1 = ?d2" by auto
  moreover from rs(2) l have "length rs = 2" by simp
  ultimately have "rs = [?d1, ?d2]"
    by (auto simp: less_Suc_eq numeral_2_eq_2 intro!: nth_equalityI)
  with rs(1) s0 s1 l show ?thesis by auto
qed

subsection \<open>C10: the statement behind the loop\<close>

text \<open>
  Claim C10: when \<open>maxRetries\<close> is a non-negative integer, every call of \<open>request\<close>
  ends inside the retry loop, by returning a response or by throwing, after at most
  \<open>maxRetries + 1\<close> attempts; the \<open>throw lastError\<close> behind the loop is never reached.

  \<open>request\<close> is a total function, given that every call of the executor settles.
  Each attempt but the first follows one sleep, so the attempts are one more than
  the sleeps.
\<close>

theorem request_ends_in_loop:
  assumes "0 \<le> maxRetries (retryConfig c)"
  shows "((\<exists>data. fst (request A c f opts) = Returned data) \<or>
          (\<exists>error. fst (request A c f opts) = ThrownInLoop error))
       \<and> int (network_calls (snd (request A c f opts))) \<le> maxRetries (retryConfig c) + 1
       \<and> int (length (sleeps (snd (request A c f opts)))) + 1 \<le> maxRetries (retryConfig c) + 1"
proof -
  from assms have "int 0 \<le> maxRetries (retryConfig c)" by simp
  from request_loop_bounds [OF this, where A = A and f = f and opts = opts and le = None]
  have b: "\<forall>le'. fst (request A c f opts) \<noteq> ThrownAfterLoop le'"
      "int (network_calls (snd (request A c f opts))) \<le> maxRetries (retryConfig c) + 1"
      "int (length (sleeps (snd (request A c f opts)))) \<le> maxRetries (retryConfig c)"
    by (simp_all add: request_def)
  from b(1) have "(\<exists>data. fst (request A c f opts) = Returned data) \<or>
          (\<exists>error. fst (request A c f opts) = ThrownInLoop error)"
    by (cases "fst (request A c f opts)") auto
  with b(2,3) show ?thesis by simp
qed

theorem request_ends_in_loop_witness:
  "0 \<le> maxRetries (retryConfig (httpClient (retry_client integer_arith)))
   \<and> ((\<exists>data. fst (request integer_arith (httpClient (retry_client integer_arith)) abort_fetch (sms_options hello)) = Returned data) \<or>
       (\<exists>error. fst (request integer_arith (httpClient (retry_client integer_arith)) abort_fetch (sms_options hello))
                  = ThrownInLoop error))
   \<and> int (network_calls (snd (request integer_arith (httpClient (retry_client integer_arith)) abort_fetch (sms_options hello)))) \<le> 3
   \<and> network_calls (snd (request integer_arith (httpClient (retry_client integer_arith)) abort_fetch (sms_options hello))) = 3"
proof -
  have h: "0 \<le> maxRetries (retryConfig (httpClient (retry_client integer_arith)))"
    by (simp add: retry_client_def DEFAULT_RETRY_CONFIG_def)
  have m: "maxRetries (retryConfig (httpClient (retry_client integer_arith))) = 2"
    by (simp add: retry_client_def DEFAULT_RETRY_CONFIG_def)
  have n: "network_calls (snd (request integer_arith (httpClient (retry_client integer_arith)) abort_fetch (sms_options hello))) = 3"
    by (simp add: timeouts_are_retried network_calls_def)
  show ?thesis
    using h n
      request_ends_in_loop [OF h, where A = integer_arith and f = abort_fetch
        and opts = "sms_options hello"]
    unfolding m by simp
qed

end
